theory Spec2Isabelle
  imports Complex_Main "HOL-Library.Sublist"
begin

section \<open>JavaScript numbers and array reads\<close>

text \<open>
  The engine works on JavaScript numbers. A number is modelled as a finite real, one of
  the two infinities, or NaN, so that division by zero, arithmetic on \<open>undefined\<close> and
  comparisons with NaN take the branch the program takes. The operations below give the
  exact real result and a zero divisor counts as positive zero, so the rounding error of
  binary floating point and the sign of zero are outside them. The one place where a
  rounding error in the last place changes a whole unit of the result is the combiner,
  whose weights 0.6 and 0.4 are not binary fractions and whose sum goes through
  \<open>Math.round\<close>; there each product and the sum are rounded to binary64 by
  \<open>to_binary64\<close>.
\<close>

datatype number = Fin real | PInf | NInf | NaN

fun js_neg :: "number \<Rightarrow> number" where
  "js_neg (Fin a) = Fin (- a)"
| "js_neg PInf = NInf"
| "js_neg NInf = PInf"
| "js_neg NaN = NaN"

fun js_add :: "number \<Rightarrow> number \<Rightarrow> number" where
  "js_add NaN _ = NaN"
| "js_add _ NaN = NaN"
| "js_add (Fin a) (Fin b) = Fin (a + b)"
| "js_add PInf NInf = NaN"
| "js_add NInf PInf = NaN"
| "js_add PInf _ = PInf"
| "js_add NInf _ = NInf"
| "js_add (Fin a) b = b"

definition js_sub :: "number \<Rightarrow> number \<Rightarrow> number" where
  "js_sub a b = js_add a (js_neg b)"

fun js_mul :: "number \<Rightarrow> number \<Rightarrow> number" where
  "js_mul NaN _ = NaN"
| "js_mul _ NaN = NaN"
| "js_mul (Fin a) (Fin b) = Fin (a * b)"
| "js_mul (Fin a) PInf = (if a = 0 then NaN else if 0 < a then PInf else NInf)"
| "js_mul (Fin a) NInf = (if a = 0 then NaN else if 0 < a then NInf else PInf)"
| "js_mul PInf (Fin b) = (if b = 0 then NaN else if 0 < b then PInf else NInf)"
| "js_mul NInf (Fin b) = (if b = 0 then NaN else if 0 < b then NInf else PInf)"
| "js_mul PInf PInf = PInf"
| "js_mul NInf NInf = PInf"
| "js_mul PInf NInf = NInf"
| "js_mul NInf PInf = NInf"

fun js_div :: "number \<Rightarrow> number \<Rightarrow> number" where
  "js_div NaN _ = NaN"
| "js_div _ NaN = NaN"
| "js_div (Fin a) (Fin b) =
     (if b = 0 then (if a = 0 then NaN else if 0 < a then PInf else NInf)
      else Fin (a / b))"
| "js_div (Fin a) _ = Fin 0"
| "js_div PInf (Fin b) = (if 0 \<le> b then PInf else NInf)"
| "js_div NInf (Fin b) = (if 0 \<le> b then NInf else PInf)"
| "js_div _ _ = NaN"

fun js_lt :: "number \<Rightarrow> number \<Rightarrow> bool" where
  "js_lt NaN _ = False"
| "js_lt _ NaN = False"
| "js_lt (Fin a) (Fin b) = (a < b)"
| "js_lt _ NInf = False"
| "js_lt PInf _ = False"
| "js_lt NInf _ = True"
| "js_lt (Fin a) PInf = True"

definition js_gt :: "number \<Rightarrow> number \<Rightarrow> bool" where
  "js_gt a b = js_lt b a"

fun js_le :: "number \<Rightarrow> number \<Rightarrow> bool" where
  "js_le NaN _ = False"
| "js_le _ NaN = False"
| "js_le (Fin a) (Fin b) = (a \<le> b)"
| "js_le NInf _ = True"
| "js_le _ PInf = True"
| "js_le _ _ = False"

text \<open>Strict equality \<open>===\<close> on numbers: NaN equals nothing, itself included.\<close>

fun js_strict_eq :: "number \<Rightarrow> number \<Rightarrow> bool" where
  "js_strict_eq NaN _ = False"
| "js_strict_eq _ NaN = False"
| "js_strict_eq a b = (a = b)"

text \<open>\<open>Math.round\<close>: the nearest integer, a tie going up; infinities and NaN pass through.\<close>

fun js_round :: "number \<Rightarrow> number" where
  "js_round (Fin a) = Fin (of_int \<lfloor>a + 1 / 2\<rfloor>)"
| "js_round x = x"

text \<open>
  Rounding of a real to binary64, to nearest with ties to the even significand. \<open>rne\<close>
  rounds to an integer that way. \<open>ulp x\<close> is the spacing of the binary64 values around
  \<open>x\<close>: 53 significant bits, and the exponent \<open>-1022\<close> for everything below the
  normal range. A result of magnitude \<open>2 ^ 1024\<close> or more is an infinity.
\<close>

definition rne :: "real \<Rightarrow> int" where
  "rne x =
     (let f = \<lfloor>x\<rfloor>; r = x - of_int f
      in if r < 1 / 2 then f
         else if 1 / 2 < r then f + 1
         else if even f then f else f + 1)"

definition ulp :: "real \<Rightarrow> real" where
  "ulp x = 2 powr (of_int (max \<lfloor>log 2 \<bar>x\<bar>\<rfloor> (- 1022)) - 52)"

definition binary64 :: "real \<Rightarrow> number" where
  "binary64 x =
     (if x = 0 then Fin 0
      else
        let y = of_int (rne (x / ulp x)) * ulp x
        in if 2 ^ 1024 \<le> \<bar>y\<bar> then (if 0 < x then PInf else NInf) else Fin y)"

fun to_binary64 :: "number \<Rightarrow> number" where
  "to_binary64 (Fin x) = binary64 x"
| "to_binary64 x = x"

text \<open>\<open>Math.min\<close> of two numbers: NaN as soon as one argument is NaN.\<close>

fun js_min :: "number \<Rightarrow> number \<Rightarrow> number" where
  "js_min NaN _ = NaN"
| "js_min _ NaN = NaN"
| "js_min a b = (if js_lt b a then b else a)"

text \<open>
  An array read \<open>xs[i]\<close>: \<open>None\<close> stands for \<open>undefined\<close>, which is what an index outside
  the array gives. \<open>to_number\<close> is the conversion that arithmetic and comparisons apply to
  such a value, and \<open>js_or\<close> is \<open>v || d\<close> on it: \<open>undefined\<close>, zero and NaN are falsy.
\<close>

definition js_index :: "'a list \<Rightarrow> int \<Rightarrow> 'a option" where
  "js_index xs i = (if 0 \<le> i \<and> i < int (length xs) then Some (xs ! nat i) else None)"

fun to_number :: "number option \<Rightarrow> number" where
  "to_number None = NaN"
| "to_number (Some x) = x"

fun js_or :: "number option \<Rightarrow> number \<Rightarrow> number" where
  "js_or None d = d"
| "js_or (Some NaN) d = d"
| "js_or (Some (Fin a)) d = (if a = 0 then d else Fin a)"
| "js_or (Some x) d = x"

text \<open>
  \<open>xs.slice(-p)\<close> for a count \<open>p\<close>: the last \<open>p\<close> elements, the whole array when it has
  fewer, and the whole array also for \<open>p = 0\<close>, since \<open>-0\<close> is the start index 0.
\<close>

definition slice_last :: "'a list \<Rightarrow> nat \<Rightarrow> 'a list" where
  "slice_last xs p = (if p = 0 then xs else drop (length xs - p) xs)"

text \<open>\<open>xs.reduce((a, b) => a + b, 0)\<close>\<close>

definition js_sum :: "number list \<Rightarrow> number" where
  "js_sum xs = foldl js_add (Fin 0) xs"

section \<open>Data model\<close>

record MarketDataPoint =
  timestamp :: number
  open' :: number
  high :: number
  low :: number
  close :: number
  volume :: number

datatype direction = BUY | SELL | HOLD

record indicator_set =
  sma20 :: number
  sma50 :: number
  rsi :: number
  momentum :: number

record TradingSignal =
  timeframe :: string
  signal :: direction
  strength :: number
  indicators :: indicator_set

section \<open>Indicator library\<close>

definition calculateSMA :: "number list \<Rightarrow> nat \<Rightarrow> number" where
  "calculateSMA data period =
     (if length data < period then js_or (js_index data (int (length data) - 1)) (Fin 0)
      else js_div (js_sum (slice_last data period)) (Fin (real period)))"

text \<open>The loop of \<open>calculateRSI\<close> that pushes \<open>prices[i] - prices[i - 1]\<close> for \<open>i = 1, 2, ...\<close>\<close>

fun changes :: "number list \<Rightarrow> number list" where
  "changes (a # b # xs) = js_sub b a # changes (b # xs)"
| "changes _ = []"

definition calculateRSI :: "number list \<Rightarrow> nat \<Rightarrow> number" where
  "calculateRSI prices period =
     (if length prices < period + 1 then Fin 50
      else
        let gains = map (\<lambda>c. if js_gt c (Fin 0) then c else Fin 0)
                      (slice_last (changes prices) period);
            losses = map (\<lambda>c. if js_lt c (Fin 0) then js_neg c else Fin 0)
                      (slice_last (changes prices) period);
            avgGain = js_div (js_sum gains) (Fin (real period));
            avgLoss = js_div (js_sum losses) (Fin (real period))
        in if js_strict_eq avgLoss (Fin 0) then Fin 100
           else js_sub (Fin 100) (js_div (Fin 100) (js_add (Fin 1) (js_div avgGain avgLoss))))"

definition calculateMomentum :: "number list \<Rightarrow> nat \<Rightarrow> number" where
  "calculateMomentum prices period =
     (if length prices < period then Fin 0
      else
        let latest = to_number (js_index prices (int (length prices) - 1));
            past = to_number (js_index prices (int (length prices) - int period))
        in js_mul (js_div (js_sub latest past) past) (Fin 100))"

section \<open>Signal generator\<close>

text \<open>\<open>Math.round(x * 100) / 100\<close>\<close>

definition round2 :: "number \<Rightarrow> number" where
  "round2 x = js_div (js_round (js_mul x (Fin 100))) (Fin 100)"

definition generateSignal :: "MarketDataPoint list \<Rightarrow> string \<Rightarrow> TradingSignal" where
  "generateSignal data tf =
     (let closes = map close data;
          s20 = calculateSMA closes 20;
          s50 = calculateSMA closes 50;
          r = calculateRSI closes 14;
          m = calculateMomentum closes 10;
          currentPrice = to_number (js_index closes (int (length closes) - 1));
          ind = \<lparr>sma20 = round2 s20, sma50 = round2 s50, rsi = round2 r, momentum = round2 m\<rparr>
      in if js_gt currentPrice s20 \<and> js_gt s20 s50 \<and> js_lt r (Fin 70) \<and> js_gt m (Fin 0)
         then \<lparr>timeframe = tf, signal = BUY,
               strength = js_min (Fin 100)
                 (js_add (if js_lt r (Fin 30) then Fin 90 else Fin 70)
                         (if js_gt m (Fin 5) then Fin 20 else Fin 10)),
               indicators = ind\<rparr>
         else if js_lt currentPrice s20 \<and> js_lt s20 s50 \<and> js_gt r (Fin 30) \<and> js_lt m (Fin 0)
         then \<lparr>timeframe = tf, signal = SELL,
               strength = js_min (Fin 100)
                 (js_add (if js_gt r (Fin 70) then Fin 90 else Fin 70)
                         (if js_lt m (Fin (- 5)) then Fin 20 else Fin 10)),
               indicators = ind\<rparr>
         else \<lparr>timeframe = tf, signal = HOLD, strength = Fin 40, indicators = ind\<rparr>)"

section \<open>Signal combiner\<close>

text \<open>
  The two weights are the binary64 values of the literals \<open>0.6\<close> and \<open>0.4\<close>:
  \<open>5404319552844595 / 2 ^ 53\<close> and \<open>3602879701896397 / 2 ^ 53\<close>.
\<close>

definition dailyWeight :: number where
  "dailyWeight = Fin (5404319552844595 / 9007199254740992)"

definition intradayWeight :: number where
  "intradayWeight = Fin (3602879701896397 / 9007199254740992)"

definition combineSignals :: "TradingSignal \<Rightarrow> TradingSignal \<Rightarrow> TradingSignal" where
  "combineSignals dailySignal intradaySignal =
     (let combinedStrength =
            to_binary64
              (js_add (to_binary64 (js_mul (strength dailySignal) dailyWeight))
                      (to_binary64 (js_mul (strength intradaySignal) intradayWeight)))
      in \<lparr>timeframe = ''combined'',
          signal =
            (if signal dailySignal = signal intradaySignal then signal dailySignal
             else if signal dailySignal = BUY \<and> signal intradaySignal \<noteq> SELL then BUY
             else if signal dailySignal = SELL \<and> signal intradaySignal \<noteq> BUY then SELL
             else HOLD),
          strength = js_round combinedStrength,
          indicators = indicators dailySignal\<rparr>)"

section \<open>Recommendation text\<close>

fun direction_str :: "direction \<Rightarrow> string" where
  "direction_str BUY = ''BUY''"
| "direction_str SELL = ''SELL''"
| "direction_str HOLD = ''HOLD''"

text \<open>
  The three template strings of the request handler. \<open>num_str\<close> is the conversion of a
  number to text that a template applies to \<open>strength\<close>.
\<close>

definition recommendation ::
  "(number \<Rightarrow> string) \<Rightarrow> TradingSignal \<Rightarrow> TradingSignal \<Rightarrow> TradingSignal \<Rightarrow> string" where
  "recommendation num_str dailySignal intradaySignal combinedSignal =
     (if signal combinedSignal = BUY then
        ''Strong '' @ (if js_gt (strength combinedSignal) (Fin 80) then ''BUY'' else ''Moderate BUY'')
        @ '' signal. Daily trend is '' @ direction_str (signal dailySignal)
        @ '' with '' @ num_str (strength dailySignal)
        @ ''% confidence. 15-min trend shows '' @ direction_str (signal intradaySignal)
        @ '' with '' @ num_str (strength intradaySignal) @ ''% confidence.''
      else if signal combinedSignal = SELL then
        ''Strong '' @ (if js_gt (strength combinedSignal) (Fin 80) then ''SELL'' else ''Moderate SELL'')
        @ '' signal. Daily trend is '' @ direction_str (signal dailySignal)
        @ '' with '' @ num_str (strength dailySignal)
        @ ''% confidence. 15-min trend shows '' @ direction_str (signal intradaySignal)
        @ '' with '' @ num_str (strength intradaySignal) @ ''% confidence.''
      else
        ''HOLD position. Market conditions are mixed. Daily: '' @ direction_str (signal dailySignal)
        @ '' ('' @ num_str (strength dailySignal) @ ''%), 15-min: ''
        @ direction_str (signal intradaySignal)
        @ '' ('' @ num_str (strength intradaySignal) @ ''%). Wait for clearer signals.'')"

section \<open>The specification's reading of momentum\<close>

text \<open>
  The specification describes momentum as the percentage change between the latest close
  and the close \<open>period\<close> steps back, and 0 below \<open>period\<close> points. This definition
  follows those words: the past close is the one \<open>period\<close> positions before the latest.
  It is compared with \<open>calculateMomentum\<close> below.
\<close>

definition momentum_spec :: "number list \<Rightarrow> nat \<Rightarrow> number" where
  "momentum_spec closes period =
     (if length closes < period then Fin 0
      else
        let latest = to_number (js_index closes (int (length closes) - 1));
            past = to_number (js_index closes (int (length closes) - 1 - int period))
        in js_mul (js_div (js_sub latest past) past) (Fin 100))"

text \<open>
  The data model says that bars come in strictly increasing timestamp order. The source has
  no such check; this predicate states the order so that a series violating it can be named.
\<close>

fun timestamps_increasing :: "MarketDataPoint list \<Rightarrow> bool" where
  "timestamps_increasing (a # b # bs) =
     (js_lt (timestamp a) (timestamp b) \<and> timestamps_increasing (b # bs))"
| "timestamps_increasing _ = True"

section \<open>Sample inputs\<close>

text \<open>A bar at time \<open>t\<close> whose four prices all equal \<open>c\<close>, and a series of such bars.\<close>

definition bar :: "nat \<Rightarrow> real \<Rightarrow> MarketDataPoint" where
  "bar t c = \<lparr>timestamp = Fin (real t), open' = Fin c, high = Fin c, low = Fin c,
              close = Fin c, volume = Fin 0\<rparr>"

definition bars_of_closes :: "real list \<Rightarrow> MarketDataPoint list" where
  "bars_of_closes cs = map (\<lambda>(t, c). bar t c) (enumerate 0 cs)"

text \<open>Fifty closes: a flat stretch at 100, then a saw-tooth rise to 135.\<close>

definition rally_closes :: "real list" where
  "rally_closes = replicate 36 100 @
     [110, 105, 115, 110, 120, 115, 125, 120, 130, 125, 135, 130, 140, 135]"

text \<open>Fifty closes with the same saw-tooth on a base of 1000, so the last rise is small.\<close>

definition gentle_closes :: "real list" where
  "gentle_closes = replicate 36 1000 @
     [1010, 1005, 1015, 1010, 1020, 1015, 1025, 1020, 1030, 1025, 1035, 1030, 1040, 1035]"

text \<open>Fifty closes: flat at 100, a jump to 1000, a drop to 900, then a slow climb.\<close>

definition rebound_closes :: "real list" where
  "rebound_closes = replicate 35 100 @
     [1000, 900, 901, 902, 903, 904, 905, 906, 907, 908, 909, 910, 911, 912, 913]"

definition no_indicators :: indicator_set where
  "no_indicators = \<lparr>sma20 = Fin 0, sma50 = Fin 0, rsi = Fin 50, momentum = Fin 0\<rparr>"

definition sample_signal :: "direction \<Rightarrow> real \<Rightarrow> TradingSignal" where
  "sample_signal s k = \<lparr>timeframe = ''sample'', signal = s, strength = Fin k,
                          indicators = no_indicators\<rparr>"

section \<open>Facts about the number operations and the sample inputs\<close>

lemma js_lt_asym: "js_lt a b \<Longrightarrow> \<not> js_lt b a"
  by (cases a; cases b) auto

lemma js_mul_commute: "js_mul a b = js_mul b a"
  by (cases a; cases b) auto

lemma last_close:
  "data \<noteq> [] \<Longrightarrow>
   to_number (js_index (map f data) (int (length (map f data)) - 1)) = f (last data)"
  by (simp add: js_index_def last_conv_nth nat_diff_distrib')

lemma foldl_js_add_replicate:
  "foldl js_add (Fin a) (replicate n (Fin c)) = Fin (a + real n * c)"
  by (induction n arbitrary: a) (simp_all add: algebra_simps)

lemma changes_replicate: "changes (replicate n (Fin c)) = replicate (n - 1) (Fin 0)"
proof (induction n)
  case 0
  show ?case by simp
next
  case (Suc n)
  then show ?case by (cases n) (simp_all add: js_sub_def)
qed

lemma close_bars_of_closes: "map close (bars_of_closes cs) = map Fin cs"
proof -
  have "close \<circ> (\<lambda>(t, c). bar t c) = Fin \<circ> snd"
    by (auto simp: bar_def)
  then have "map close (bars_of_closes cs) = map (Fin \<circ> snd) (enumerate 0 cs)"
    by (simp add: bars_of_closes_def)
  also have "\<dots> = map Fin (map snd (enumerate 0 cs))"
    by (simp only: map_map)
  also have "\<dots> = map Fin cs"
    by (simp only: map_snd_enumerate)
  finally show ?thesis .
qed

lemma rally_price:
  "to_number (js_index (map Fin rally_closes) (int (length rally_closes) - 1)) = Fin 135"
  by (simp add: rally_closes_def js_index_def nth_append)

lemma rally_sma20: "calculateSMA (map Fin rally_closes) 20 = Fin (463 / 4)"
  by (simp add: calculateSMA_def rally_closes_def slice_last_def js_sum_def
      foldl_js_add_replicate)

lemma rally_sma50: "calculateSMA (map Fin rally_closes) 50 = Fin (1063 / 10)"
  by (simp add: calculateSMA_def rally_closes_def slice_last_def js_sum_def
      foldl_js_add_replicate)

lemma rally_rsi: "calculateRSI (map Fin rally_closes) 14 = Fin (200 / 3)"
  by (simp add: calculateRSI_def rally_closes_def slice_last_def js_sum_def js_sub_def
      js_gt_def Let_def eval_nat_numeral)

lemma rally_momentum: "calculateMomentum (map Fin rally_closes) 10 = Fin (25 / 2)"
  by (simp add: calculateMomentum_def rally_closes_def js_index_def js_sub_def Let_def
      eval_nat_numeral)

lemma rally_signal:
  "signal (generateSignal (bars_of_closes rally_closes) tf) = BUY \<and>
   strength (generateSignal (bars_of_closes rally_closes) tf) = Fin 90"
  unfolding generateSignal_def close_bars_of_closes
  by (simp add: rally_price rally_sma20 rally_sma50 rally_rsi rally_momentum js_gt_def Let_def)

lemma gentle_values:
  "to_number (js_index (map Fin gentle_closes) (int (length gentle_closes) - 1)) = Fin 1035"
  "calculateSMA (map Fin gentle_closes) 20 = Fin (4063 / 4)"
  "calculateSMA (map Fin gentle_closes) 50 = Fin (10063 / 10)"
  "calculateRSI (map Fin gentle_closes) 14 = Fin (200 / 3)"
  "calculateMomentum (map Fin gentle_closes) 10 = Fin (25 / 17)"
proof -
  show "to_number (js_index (map Fin gentle_closes) (int (length gentle_closes) - 1)) = Fin 1035"
    by (simp add: gentle_closes_def js_index_def nth_append)
  show "calculateSMA (map Fin gentle_closes) 20 = Fin (4063 / 4)"
    by (simp add: calculateSMA_def gentle_closes_def slice_last_def js_sum_def
        foldl_js_add_replicate)
  show "calculateSMA (map Fin gentle_closes) 50 = Fin (10063 / 10)"
    by (simp add: calculateSMA_def gentle_closes_def slice_last_def js_sum_def
        foldl_js_add_replicate)
  show "calculateRSI (map Fin gentle_closes) 14 = Fin (200 / 3)"
    by (simp add: calculateRSI_def gentle_closes_def slice_last_def js_sum_def js_sub_def
        js_gt_def Let_def eval_nat_numeral)
  show "calculateMomentum (map Fin gentle_closes) 10 = Fin (25 / 17)"
    by (simp add: calculateMomentum_def gentle_closes_def js_index_def js_sub_def Let_def
        eval_nat_numeral)
qed

lemma gentle_signal:
  "signal (generateSignal (bars_of_closes gentle_closes) tf) = BUY \<and>
   strength (generateSignal (bars_of_closes gentle_closes) tf) = Fin 80"
  unfolding generateSignal_def close_bars_of_closes
  by (simp add: gentle_values js_gt_def Let_def)

lemma rebound_values:
  "to_number (js_index (map Fin rebound_closes) (int (length rebound_closes) - 1)) = Fin 913"
  "calculateSMA (map Fin rebound_closes) 20 = Fin (14191 / 20)"
  "calculateSMA (map Fin rebound_closes) 50 = Fin (17191 / 50)"
  "calculateRSI (map Fin rebound_closes) 14 = Fin (1300 / 113)"
  "calculateMomentum (map Fin rebound_closes) 10 = Fin (225 / 226)"
proof -
  show "to_number (js_index (map Fin rebound_closes) (int (length rebound_closes) - 1)) = Fin 913"
    by (simp add: rebound_closes_def js_index_def nth_append)
  show "calculateSMA (map Fin rebound_closes) 20 = Fin (14191 / 20)"
    by (simp add: calculateSMA_def rebound_closes_def slice_last_def js_sum_def
        foldl_js_add_replicate)
  show "calculateSMA (map Fin rebound_closes) 50 = Fin (17191 / 50)"
    by (simp add: calculateSMA_def rebound_closes_def slice_last_def js_sum_def
        foldl_js_add_replicate)
  show "calculateRSI (map Fin rebound_closes) 14 = Fin (1300 / 113)"
    by (simp add: calculateRSI_def rebound_closes_def slice_last_def js_sum_def js_sub_def
        js_gt_def Let_def eval_nat_numeral)
  show "calculateMomentum (map Fin rebound_closes) 10 = Fin (225 / 226)"
    by (simp add: calculateMomentum_def rebound_closes_def js_index_def js_sub_def Let_def
        eval_nat_numeral)
qed

lemma rebound_signal:
  "signal (generateSignal (bars_of_closes rebound_closes) tf) = BUY \<and>
   strength (generateSignal (bars_of_closes rebound_closes) tf) = Fin 100"
  unfolding generateSignal_def close_bars_of_closes
  by (simp add: rebound_values js_gt_def Let_def)

section \<open>Facts about binary64 rounding and the combined strength\<close>

lemma rne_error: "\<bar>of_int (rne x) - x\<bar> \<le> 1 / 2"
  unfolding rne_def Let_def by (auto; linarith)

lemma ulp_pos: "0 < ulp x"
  by (simp add: ulp_def)

lemma ulp_small:
  assumes "x \<noteq> 0" and "\<bar>x\<bar> < 128"
  shows "ulp x \<le> 1 / 2 ^ 46"
proof -
  have "log 2 \<bar>x\<bar> < 7"
    using assms by (simp add: log_less_iff)
  then have "\<lfloor>log 2 \<bar>x\<bar>\<rfloor> \<le> 6"
    by (simp add: floor_less_iff flip: zless_add1_eq)
  then have "ulp x \<le> 2 powr (- 46)"
    unfolding ulp_def by (intro powr_mono) simp_all
  also have "\<dots> = 1 / 2 ^ 46"
    by (simp add: powr_minus_divide)
  finally show ?thesis .
qed

lemma ulp_binade:
  assumes "2 powr of_int e \<le> \<bar>x\<bar>" and "\<bar>x\<bar> < 2 powr (of_int e + 1)" and "- 1022 \<le> e"
  shows "ulp x = 2 powr (of_int e - 52)"
proof -
  have "(0 :: real) < 2 powr of_int e" by simp
  with assms(1) have "0 < \<bar>x\<bar>" by linarith
  then have "\<lfloor>log 2 \<bar>x\<bar>\<rfloor> = e"
    using assms(1,2) by (simp add: floor_log_eq_powr_iff)
  then show ?thesis
    using assms(3) by (simp add: ulp_def)
qed

lemma binary64_value:
  assumes "x \<noteq> 0" and "\<bar>x\<bar> < 128"
  shows "binary64 x = Fin (of_int (rne (x / ulp x)) * ulp x)"
    and "\<bar>of_int (rne (x / ulp x)) * ulp x - x\<bar> \<le> 1 / 2 ^ 47"
proof -
  define u where "u = ulp x"
  define y where "y = of_int (rne (x / u)) * u"
  have upos: "0 < u" by (simp add: u_def ulp_pos)
  have u46: "u \<le> 1 / 2 ^ 46"
    unfolding u_def by (rule ulp_small[OF assms])
  have "y - x = (of_int (rne (x / u)) - x / u) * u"
    using upos by (simp add: y_def left_diff_distrib)
  then have "\<bar>y - x\<bar> = \<bar>of_int (rne (x / u)) - x / u\<bar> * u"
    using upos by (simp add: abs_mult)
  also have "\<dots> \<le> 1 / 2 * u"
    using rne_error[of "x / u"] upos by (intro mult_right_mono) simp_all
  also have "\<dots> \<le> 1 / 2 ^ 47"
    using u46 by simp
  finally have near: "\<bar>y - x\<bar> \<le> 1 / 2 ^ 47" .
  have "(1 :: real) / 2 ^ 47 \<le> 1" by simp
  with near have "\<bar>y\<bar> < 129"
    using assms(2) by linarith
  also have "(129 :: real) < 2 ^ 1024" by simp
  finally have "\<not> 2 ^ 1024 \<le> \<bar>y\<bar>" by simp
  then show "binary64 x = Fin (of_int (rne (x / ulp x)) * ulp x)"
    using assms(1) by (simp add: binary64_def Let_def y_def u_def)
  show "\<bar>of_int (rne (x / ulp x)) * ulp x - x\<bar> \<le> 1 / 2 ^ 47"
    using near by (simp add: y_def u_def)
qed

lemma binary64_near:
  assumes "\<bar>x\<bar> < 128"
  shows "\<exists>y. binary64 x = Fin y \<and> \<bar>y - x\<bar> \<le> 1 / 2 ^ 47"
proof (cases "x = 0")
  case True
  then show ?thesis by (simp add: binary64_def)
next
  case False
  then show ?thesis
    using binary64_value[OF False assms] by blast
qed

lemma combined_strength_near:
  assumes d: "strength d = Fin a" and i: "strength i = Fin b"
    and a: "0 \<le> a" "a \<le> 100" and b: "0 \<le> b" "b \<le> 100"
  shows "\<exists>y. strength (combineSignals d i) = Fin (of_int \<lfloor>y + 1 / 2\<rfloor>) \<and>
     \<bar>y - (a * (5404319552844595 / 9007199254740992) +
            b * (3602879701896397 / 9007199254740992))\<bar> \<le> 3 / 2 ^ 47"
proof -
  let ?x1 = "a * (5404319552844595 / 9007199254740992)"
  let ?x2 = "b * (3602879701896397 / 9007199254740992)"
  have x1: "0 \<le> ?x1" "?x1 \<le> 60" using a by simp_all
  have x2: "0 \<le> ?x2" "?x2 \<le> 41" using b by simp_all
  obtain p where p: "binary64 ?x1 = Fin p" "\<bar>p - ?x1\<bar> \<le> 1 / 2 ^ 47"
    using binary64_near[of ?x1] x1 by auto
  obtain q where q: "binary64 ?x2 = Fin q" "\<bar>q - ?x2\<bar> \<le> 1 / 2 ^ 47"
    using binary64_near[of ?x2] x2 by auto
  have small: "(1 :: real) / 2 ^ 47 \<le> 1" by simp
  have "\<bar>p + q\<bar> < 128"
    using p(2) q(2) x1 x2 small by linarith
  then obtain y where y: "binary64 (p + q) = Fin y" "\<bar>y - (p + q)\<bar> \<le> 1 / 2 ^ 47"
    using binary64_near[of "p + q"] by auto
  have m1: "js_mul (strength d) dailyWeight = Fin ?x1"
    by (simp add: d dailyWeight_def)
  have m2: "js_mul (strength i) intradayWeight = Fin ?x2"
    by (simp add: i intradayWeight_def)
  have "to_binary64
          (js_add (to_binary64 (js_mul (strength d) dailyWeight))
                  (to_binary64 (js_mul (strength i) intradayWeight))) = Fin y"
    unfolding m1 m2 to_binary64.simps p(1) q(1) js_add.simps y(1) ..
  then have "strength (combineSignals d i) = Fin (of_int \<lfloor>y + 1 / 2\<rfloor>)"
    by (simp add: combineSignals_def)
  moreover have "\<bar>y - (?x1 + ?x2)\<bar> \<le> 3 / 2 ^ 47"
    using p(2) q(2) y(2) by linarith
  ultimately show ?thesis by blast
qed

lemma weighted_round_int:
  fixes a b :: int and y :: real
  assumes "\<bar>y - (6 / 10 * of_int a + 4 / 10 * of_int b)\<bar> < 1 / 10"
  shows "\<lfloor>y + 1 / 2\<rfloor> = (6 * a + 4 * b + 5) div 10"
proof -
  define k where "k = (6 * a + 4 * b + 5) div 10"
  have "10 * k + 1 \<le> 6 * a + 4 * b + 5" and "6 * a + 4 * b + 5 \<le> 10 * k + 9"
    unfolding k_def by presburger+
  then have "(of_int (10 * k + 1) :: real) \<le> of_int (6 * a + 4 * b + 5)"
    and "(of_int (6 * a + 4 * b + 5) :: real) \<le> of_int (10 * k + 9)"
    by (simp_all only: of_int_le_iff)
  then have lo: "of_int k + 1 / 10 \<le> 6 / 10 * of_int a + 4 / 10 * of_int b + (1 / 2 :: real)"
    and hi: "6 / 10 * of_int a + 4 / 10 * of_int b + (1 / 2 :: real) \<le> of_int k + 9 / 10"
    by simp_all
  have "of_int k \<le> y + 1 / 2" and "y + 1 / 2 < of_int k + 1"
    using assms lo hi by linarith+
  then have "\<lfloor>y + 1 / 2\<rfloor> = k"
    by (intro floor_unique) simp_all
  then show ?thesis by (simp add: k_def)
qed

lemma round_weighted_int:
  "round (6 / 10 * of_int a + 4 / 10 * of_int b :: real) = (6 * a + 4 * b + 5) div 10"
  unfolding round_def by (rule weighted_round_int) simp

lemma combined_strength_integers:
  assumes d: "strength d = Fin (of_int a)" and i: "strength i = Fin (of_int b)"
    and a: "0 \<le> a" "a \<le> 100" and b: "0 \<le> b" "b \<le> 100"
  shows "strength (combineSignals d i) = Fin (of_int ((6 * a + 4 * b + 5) div 10))"
proof -
  have ra: "0 \<le> (of_int a :: real)" "(of_int a :: real) \<le> 100"
    and rb: "0 \<le> (of_int b :: real)" "(of_int b :: real) \<le> 100"
    using a b by simp_all
  obtain y :: real where y: "strength (combineSignals d i) = Fin (of_int \<lfloor>y + 1 / 2\<rfloor>)"
    and near: "\<bar>y - (of_int a * (5404319552844595 / 9007199254740992) +
            of_int b * (3602879701896397 / 9007199254740992))\<bar> \<le> 3 / 2 ^ 47"
    using combined_strength_near[OF d i ra rb] by blast
  have tiny: "(3 :: real) / 2 ^ 47 \<le> 1 / 1000" by simp
  have "\<bar>y - (6 / 10 * of_int a + 4 / 10 * of_int b)\<bar> < 1 / 10"
    using near ra rb tiny by linarith
  then have "\<lfloor>y + 1 / 2\<rfloor> = (6 * a + 4 * b + 5) div 10"
    by (rule weighted_round_int)
  with y show ?thesis by simp
qed

lemma combined_strength_range:
  assumes d: "strength d = Fin a" and i: "strength i = Fin b"
    and a: "0 \<le> a" "a \<le> 100" and b: "0 \<le> b" "b \<le> 100"
  shows "\<exists>k. strength (combineSignals d i) = Fin (of_int k) \<and> 0 \<le> k \<and> k \<le> 100"
proof -
  obtain y where y: "strength (combineSignals d i) = Fin (of_int \<lfloor>y + 1 / 2\<rfloor>)"
    and near: "\<bar>y - (a * (5404319552844595 / 9007199254740992) +
            b * (3602879701896397 / 9007199254740992))\<bar> \<le> 3 / 2 ^ 47"
    using combined_strength_near[OF d i a b] by blast
  have tiny: "(3 :: real) / 2 ^ 47 \<le> 1 / 1000" by simp
  have "0 \<le> y + 1 / 2" and "y + 1 / 2 < 101"
    using near a b tiny by linarith+
  then have "0 \<le> \<lfloor>y + 1 / 2\<rfloor>" and "\<lfloor>y + 1 / 2\<rfloor> \<le> 100"
    by (simp_all add: floor_less_iff flip: zless_add1_eq)
  with y show ?thesis by blast
qed

text \<open>
  Outside whole numbers the last place matters. At the strengths 9 and 0.25 the rounded
  sum is \<open>5.5 - 2 ^ -50\<close>, so the combined strength is 5, while the exact sum
  \<open>0.6 * 9 + 0.4 * 0.25 = 5.5\<close> rounds to 6.
\<close>

lemma binary64_in_binade:
  assumes "2 powr of_int e \<le> \<bar>x\<bar>" and "\<bar>x\<bar> < 2 powr (of_int e + 1)"
    and "- 1022 \<le> e" and "\<bar>x\<bar> < 128"
  shows "binary64 x = Fin (of_int (rne (x / 2 powr (of_int e - 52))) * 2 powr (of_int e - 52))"
proof -
  have "(0 :: real) < 2 powr of_int e" by simp
  with assms(1) have "0 < \<bar>x\<bar>" by linarith
  then have "x \<noteq> 0" by simp
  then show ?thesis
    using binary64_value(1)[OF _ assms(4)] ulp_binade[OF assms(1,2,3)] by simp
qed

lemma product_9: "binary64 (9 * (5404319552844595 / 9007199254740992)) =
    Fin (6079859496950169 / 1125899906842624)"
  by (subst binary64_in_binade[where e = 2])
    (simp_all add: powr_minus_divide rne_def)

lemma product_quarter: "binary64 (1 / 4 * (3602879701896397 / 9007199254740992)) =
    Fin (3602879701896397 / 36028797018963968)"
  by (subst binary64_in_binade[where e = "- 4"])
    (simp_all add: powr_minus_divide rne_def)

lemma sum_9_quarter:
  "binary64 (6079859496950169 / 1125899906842624 + 3602879701896397 / 36028797018963968) =
    Fin (6192449487634431 / 1125899906842624)"
  by (subst binary64_in_binade[where e = 2])
    (simp_all add: powr_minus_divide rne_def)

lemma combineSignals_last_place:
  "strength (combineSignals (sample_signal BUY 9) (sample_signal HOLD (1 / 4))) = Fin 5 \<and>
   round (6 / 10 * 9 + 4 / 10 * (1 / 4) :: real) = 6"
proof -
  have "strength (combineSignals (sample_signal BUY 9) (sample_signal HOLD (1 / 4))) =
      js_round (to_binary64 (js_add
        (to_binary64 (Fin (9 * (5404319552844595 / 9007199254740992))))
        (to_binary64 (Fin (1 / 4 * (3602879701896397 / 9007199254740992))))))"
    by (simp add: combineSignals_def sample_signal_def dailyWeight_def intradayWeight_def)
  also have "\<dots> = js_round (to_binary64 (Fin
      (6079859496950169 / 1125899906842624 + 3602879701896397 / 36028797018963968)))"
    unfolding to_binary64.simps product_9 product_quarter js_add.simps ..
  also have "\<dots> = Fin 5"
    unfolding to_binary64.simps sum_9_quarter by simp
  finally have code: "strength (combineSignals (sample_signal BUY 9)
      (sample_signal HOLD (1 / 4))) = Fin 5" .
  have "round (6 / 10 * 9 + 4 / 10 * (1 / 4) :: real) = 6"
    by (simp add: round_def)
  with code show ?thesis by simp
qed

section \<open>Momentum\<close>

text \<open>
  C1, as the code has it. Below \<open>period\<close> points momentum is 0. With at least \<open>period\<close>
  points (and a period of at least 1) it is (latest - past) / past * 100 where past is the
  close at index \<open>length - period\<close>, the first of the last \<open>period\<close> closes, which lies
  \<open>period - 1\<close> positions before the latest one. On finite closes with a non-zero past
  close this is the real quotient.
\<close>

theorem calculateMomentum_window:
  "(length prices < period \<longrightarrow> calculateMomentum prices period = Fin 0) \<and>
   (0 < period \<and> period \<le> length prices \<longrightarrow>
      calculateMomentum prices period =
        js_mul (js_div (js_sub (last prices) (prices ! (length prices - period)))
                       (prices ! (length prices - period))) (Fin 100)) \<and>
   (0 < period \<and> period \<le> length cs \<and> cs ! (length cs - period) \<noteq> 0 \<longrightarrow>
      calculateMomentum (map Fin cs) period =
        Fin ((last cs - cs ! (length cs - period)) / cs ! (length cs - period) * 100))"
proof -
  have general: "calculateMomentum xs period =
        js_mul (js_div (js_sub (last xs) (xs ! (length xs - period)))
                       (xs ! (length xs - period))) (Fin 100)"
    if "0 < period" "period \<le> length xs" for xs
  proof -
    from that have ne: "xs \<noteq> []" by auto
    have latest: "to_number (js_index xs (int (length xs) - 1)) = last xs"
      using ne by (simp add: js_index_def last_conv_nth nat_diff_distrib')
    have idx: "nat (int (length xs) - int period) = length xs - period"
      by simp
    have past: "to_number (js_index xs (int (length xs) - int period)) =
        xs ! (length xs - period)"
      using that by (simp add: js_index_def idx)
    show ?thesis
      using that unfolding calculateMomentum_def Let_def latest past by simp
  qed
  have finite: "calculateMomentum (map Fin cs) period =
        Fin ((last cs - cs ! (length cs - period)) / cs ! (length cs - period) * 100)"
    if "0 < period" "period \<le> length cs" "cs ! (length cs - period) \<noteq> 0"
  proof -
    from that have ne: "cs \<noteq> []" by auto
    have "calculateMomentum (map Fin cs) period =
        js_mul (js_div (js_sub (last (map Fin cs)) (map Fin cs ! (length (map Fin cs) - period)))
                       (map Fin cs ! (length (map Fin cs) - period))) (Fin 100)"
      using that by (intro general) simp_all
    then show ?thesis
      using that ne by (simp add: last_map js_sub_def)
  qed
  show ?thesis
    using general[of prices] finite by (simp add: calculateMomentum_def)
qed

theorem calculateMomentum_window_witness:
  "calculateMomentum [Fin 1, Fin 2, Fin 4] 10 = Fin 0 \<and>
   calculateMomentum [Fin 1, Fin 2, Fin 2, Fin 2, Fin 2, Fin 2, Fin 2, Fin 2, Fin 2, Fin 2, Fin 4] 10
     = Fin 100"
  using calculateMomentum_window[of "[Fin 1, Fin 2, Fin 4]" 10 "[]"]
    calculateMomentum_window[of "[]" 10 "[1, 2, 2, 2, 2, 2, 2, 2, 2, 2, 4]"]
  by simp

text \<open>
  C1 as stated fails: on eleven closes \<open>1, 2, ..., 2, 4\<close> with period 10 the close ten
  positions before the latest is 1, which gives 300, while the code divides by the close
  nine positions back, 2, and returns 100.
\<close>

theorem calculateMomentum_not_period_steps_back:
  "calculateMomentum
     [Fin 1, Fin 2, Fin 2, Fin 2, Fin 2, Fin 2, Fin 2, Fin 2, Fin 2, Fin 2, Fin 4] 10 = Fin 100 \<and>
   momentum_spec
     [Fin 1, Fin 2, Fin 2, Fin 2, Fin 2, Fin 2, Fin 2, Fin 2, Fin 2, Fin 2, Fin 4] 10 = Fin 300"
  by (simp add: calculateMomentum_def momentum_spec_def js_index_def js_sub_def Let_def)

section \<open>Signal generator\<close>

text \<open>
  C5. With \<open>P\<close> the latest close and the four indicators at full precision, the generator
  answers BUY exactly when \<open>P > sma20\<close>, \<open>sma20 > sma50\<close>, \<open>rsi < 70\<close> and
  \<open>momentum > 0\<close>; the strength of a BUY is min(100, base + bonus) with base 90 when
  \<open>rsi < 30\<close> and 70 otherwise, bonus 20 when \<open>momentum > 5\<close> and 10 otherwise; and the
  BUY and SELL conditions never hold together.
\<close>

theorem generateSignal_buy_rule:
  assumes "closes = map close data"
    and "P = to_number (js_index closes (int (length closes) - 1))"
    and "s20 = calculateSMA closes 20" and "s50 = calculateSMA closes 50"
    and "r = calculateRSI closes 14" and "m = calculateMomentum closes 10"
  shows "(signal (generateSignal data tf) = BUY \<longleftrightarrow>
            js_gt P s20 \<and> js_gt s20 s50 \<and> js_lt r (Fin 70) \<and> js_gt m (Fin 0)) \<and>
         (signal (generateSignal data tf) = BUY \<longrightarrow>
            strength (generateSignal data tf) =
              Fin (min 100 ((if js_lt r (Fin 30) then 90 else 70) +
                            (if js_gt m (Fin 5) then 20 else 10)))) \<and>
         \<not> ((js_gt P s20 \<and> js_gt s20 s50 \<and> js_lt r (Fin 70) \<and> js_gt m (Fin 0)) \<and>
            (js_lt P s20 \<and> js_lt s20 s50 \<and> js_gt r (Fin 30) \<and> js_lt m (Fin 0))) \<and>
         (data \<noteq> [] \<longrightarrow> P = close (last data))"
proof -
  have excl: "\<not> (js_gt P s20 \<and> js_lt P s20)"
    using js_lt_asym by (auto simp: js_gt_def)
  have latest: "data \<noteq> [] \<longrightarrow> P = close (last data)"
    using assms(1,2) last_close[of data close] by simp
  show ?thesis
    using excl latest unfolding assms generateSignal_def Let_def
    by auto
qed

theorem generateSignal_buy_rule_witness:
  "signal (generateSignal (bars_of_closes rally_closes) ''daily'') = BUY \<and>
   strength (generateSignal (bars_of_closes rally_closes) ''daily'') = Fin 90 \<and>
   close (last (bars_of_closes rally_closes)) = Fin 135"
proof -
  have "length (bars_of_closes rally_closes) = 50"
    by (simp add: bars_of_closes_def rally_closes_def)
  then have ne: "bars_of_closes rally_closes \<noteq> []"
    by auto
  show ?thesis
    using ne generateSignal_buy_rule[OF refl refl refl refl refl refl,
        of "bars_of_closes rally_closes" "''daily''"]
    unfolding close_bars_of_closes
    by (simp add: rally_price rally_sma20 rally_sma50 rally_rsi rally_momentum js_gt_def)
qed

text \<open>
  C9. The strength of a generated signal is 40 for HOLD and one of 80, 90, 100 for BUY and
  SELL; no other value occurs, and each of the four is the strength of some series.
\<close>

theorem generateSignal_strength_values:
  "((signal (generateSignal data tf) = HOLD \<and> strength (generateSignal data tf) = Fin 40) \<or>
    (signal (generateSignal data tf) \<in> {BUY, SELL} \<and>
     strength (generateSignal data tf) \<in> {Fin 80, Fin 90, Fin 100})) \<and>
   (\<exists>series. strength (generateSignal series tf) = Fin 40) \<and>
   (\<exists>series. strength (generateSignal series tf) = Fin 80) \<and>
   (\<exists>series. strength (generateSignal series tf) = Fin 90) \<and>
   (\<exists>series. strength (generateSignal series tf) = Fin 100)"
proof -
  have only: "(signal (generateSignal data tf) = HOLD \<and>
        strength (generateSignal data tf) = Fin 40) \<or>
      (signal (generateSignal data tf) \<in> {BUY, SELL} \<and>
       strength (generateSignal data tf) \<in> {Fin 80, Fin 90, Fin 100})"
    by (simp add: generateSignal_def Let_def)
  have "strength (generateSignal [] tf) = Fin 40"
    by (simp add: generateSignal_def calculateSMA_def calculateRSI_def calculateMomentum_def
        js_index_def js_gt_def Let_def)
  then have v40: "\<exists>series. strength (generateSignal series tf) = Fin 40" ..
  have v80: "\<exists>series. strength (generateSignal series tf) = Fin 80"
    using gentle_signal by blast
  have v90: "\<exists>series. strength (generateSignal series tf) = Fin 90"
    using rally_signal by blast
  have v100: "\<exists>series. strength (generateSignal series tf) = Fin 100"
    using rebound_signal by blast
  show ?thesis
    using only v40 v80 v90 v100 by (intro conjI)
qed

text \<open>
  C10. The empty series is accepted: the result is HOLD with strength 40 and the indicators
  0, 0, 50 and 0, whatever the timeframe label.
\<close>

theorem generateSignal_empty:
  "generateSignal [] tf =
     \<lparr>timeframe = tf, signal = HOLD, strength = Fin 40,
      indicators = \<lparr>sma20 = Fin 0, sma50 = Fin 0, rsi = Fin 50, momentum = Fin 0\<rparr>\<rparr>"
  by (simp add: generateSignal_def calculateSMA_def calculateRSI_def calculateMomentum_def
      js_index_def js_gt_def round2_def Let_def)

text \<open>
  C8. On fifty closes all equal to 100 the moving averages are 100, RSI is 100 (no losses),
  momentum is 0, and the signal is HOLD with strength 40.
\<close>

theorem generateSignal_flat:
  assumes "map close data = replicate 50 (Fin 100)"
  shows "calculateSMA (map close data) 20 = Fin 100 \<and>
         calculateSMA (map close data) 50 = Fin 100 \<and>
         calculateRSI (map close data) 14 = Fin 100 \<and>
         calculateMomentum (map close data) 10 = Fin 0 \<and>
         generateSignal data tf =
           \<lparr>timeframe = tf, signal = HOLD, strength = Fin 40,
            indicators = \<lparr>sma20 = Fin 100, sma50 = Fin 100, rsi = Fin 100,
                          momentum = Fin 0\<rparr>\<rparr>"
proof -
  let ?xs = "replicate 50 (Fin 100)"
  have s20: "calculateSMA ?xs 20 = Fin 100"
    by (simp add: calculateSMA_def slice_last_def js_sum_def foldl_js_add_replicate)
  have s50: "calculateSMA ?xs 50 = Fin 100"
    by (simp add: calculateSMA_def slice_last_def js_sum_def foldl_js_add_replicate)
  have r: "calculateRSI ?xs 14 = Fin 100"
    by (simp add: calculateRSI_def slice_last_def js_sum_def changes_replicate js_gt_def
        foldl_js_add_replicate Let_def)
  have m: "calculateMomentum ?xs 10 = Fin 0"
    by (simp add: calculateMomentum_def js_index_def js_sub_def Let_def)
  have p: "to_number (js_index ?xs (int (length ?xs) - 1)) = Fin 100"
    by (simp add: js_index_def)
  have g: "generateSignal data tf =
           \<lparr>timeframe = tf, signal = HOLD, strength = Fin 40,
            indicators = \<lparr>sma20 = Fin 100, sma50 = Fin 100, rsi = Fin 100,
                          momentum = Fin 0\<rparr>\<rparr>"
    unfolding generateSignal_def assms Let_def s20 s50 r m p
    by (simp add: js_gt_def round2_def)
  show ?thesis
    unfolding assms using s20 s50 r m g by simp
qed

theorem generateSignal_flat_witness:
  "map close (bars_of_closes (replicate 50 100)) = replicate 50 (Fin 100) \<and>
   generateSignal (bars_of_closes (replicate 50 100)) ''daily'' =
     \<lparr>timeframe = ''daily'', signal = HOLD, strength = Fin 40,
      indicators = \<lparr>sma20 = Fin 100, sma50 = Fin 100, rsi = Fin 100, momentum = Fin 0\<rparr>\<rparr>"
proof -
  have h: "map close (bars_of_closes (replicate 50 100)) = replicate 50 (Fin 100)"
    by (simp add: close_bars_of_closes)
  show ?thesis
    using h generateSignal_flat[OF h, of "''daily''"] by simp
qed

text \<open>
  C4. The strength of a generated signal lies between 0 and 100 and its direction is BUY,
  SELL or HOLD. The same holds for the combined signal whenever both input strengths lie
  between 0 and 100.
\<close>

theorem strength_bounds:
  "js_le (Fin 0) (strength (generateSignal data tf)) \<and>
   js_le (strength (generateSignal data tf)) (Fin 100) \<and>
   signal (generateSignal data tf) \<in> {BUY, SELL, HOLD} \<and>
   (js_le (Fin 0) (strength d) \<and> js_le (strength d) (Fin 100) \<and>
    js_le (Fin 0) (strength i) \<and> js_le (strength i) (Fin 100) \<longrightarrow>
      js_le (Fin 0) (strength (combineSignals d i)) \<and>
      js_le (strength (combineSignals d i)) (Fin 100) \<and>
      signal (combineSignals d i) \<in> {BUY, SELL, HOLD})"
proof -
  have gen: "js_le (Fin 0) (strength (generateSignal data tf)) \<and>
     js_le (strength (generateSignal data tf)) (Fin 100)"
    by (simp add: generateSignal_def Let_def)
  have dir: "x \<in> {BUY, SELL, HOLD}" for x :: direction
    by (cases x) simp_all
  have comb: "js_le (Fin 0) (strength (combineSignals d i)) \<and>
      js_le (strength (combineSignals d i)) (Fin 100)"
    if d: "js_le (Fin 0) (strength d)" "js_le (strength d) (Fin 100)"
      and i: "js_le (Fin 0) (strength i)" "js_le (strength i) (Fin 100)"
  proof -
    obtain a where a: "strength d = Fin a" "0 \<le> a" "a \<le> 100"
      using d by (cases "strength d") auto
    obtain b where b: "strength i = Fin b" "0 \<le> b" "b \<le> 100"
      using i by (cases "strength i") auto
    obtain k where "strength (combineSignals d i) = Fin (of_int k)" "0 \<le> k" "k \<le> 100"
      using combined_strength_range[OF a(1) b(1) a(2,3) b(2,3)] by blast
    then show ?thesis by simp
  qed
  show ?thesis using gen dir comb by blast
qed

theorem strength_bounds_witness:
  "js_le (Fin 0) (Fin 80) \<and> js_le (Fin 80) (Fin 100) \<and>
   js_le (Fin 0) (Fin 60) \<and> js_le (Fin 60) (Fin 100) \<and>
   js_le (Fin 0) (strength (combineSignals (sample_signal BUY 80) (sample_signal SELL 60))) \<and>
   js_le (strength (combineSignals (sample_signal BUY 80) (sample_signal SELL 60))) (Fin 100)"
  using strength_bounds[of "[]" "''daily''" "sample_signal BUY 80" "sample_signal SELL 60"]
  by (simp add: sample_signal_def)

text \<open>
  C3, as the code has it. No bar series is rejected: the generator never reads a timestamp,
  so its result is determined by the closes alone, and it has no failing branch. Where
  history is short the result carries the fallback values: both moving averages 0 on the
  empty series, RSI 50 below 15 closes, momentum 0 below 10 closes.
\<close>

theorem generateSignal_accepts_any_series:
  "(map close data = map close data' \<longrightarrow> generateSignal data tf = generateSignal data' tf) \<and>
   (data = [] \<longrightarrow> sma20 (indicators (generateSignal data tf)) = Fin 0 \<and>
                 sma50 (indicators (generateSignal data tf)) = Fin 0) \<and>
   (length data < 15 \<longrightarrow> rsi (indicators (generateSignal data tf)) = Fin 50) \<and>
   (length data < 10 \<longrightarrow> momentum (indicators (generateSignal data tf)) = Fin 0)"
proof -
  have only_closes: "generateSignal data tf = generateSignal data' tf"
    if "map close data = map close data'"
    unfolding generateSignal_def that ..
  have empty: "sma20 (indicators (generateSignal [] tf)) = Fin 0 \<and>
      sma50 (indicators (generateSignal [] tf)) = Fin 0"
    by (simp add: generateSignal_def calculateSMA_def js_index_def round2_def Let_def)
  have short_rsi: "rsi (indicators (generateSignal data tf)) = Fin 50" if "length data < 15"
    using that by (simp add: generateSignal_def calculateRSI_def round2_def Let_def)
  have short_momentum: "momentum (indicators (generateSignal data tf)) = Fin 0"
    if "length data < 10"
    using that by (simp add: generateSignal_def calculateMomentum_def round2_def Let_def)
  show ?thesis
    using only_closes empty short_rsi short_momentum by blast
qed

theorem generateSignal_accepts_any_series_witness:
  "map close [bar 2 100, bar 1 101] = map close [bar 1 100, bar 2 101] \<and>
   \<not> timestamps_increasing [bar 2 100, bar 1 101] \<and>
   timestamps_increasing [bar 1 100, bar 2 101] \<and>
   generateSignal [bar 2 100, bar 1 101] ''daily'' =
     generateSignal [bar 1 100, bar 2 101] ''daily'' \<and>
   rsi (indicators (generateSignal [bar 2 100, bar 1 101] ''daily'')) = Fin 50 \<and>
   momentum (indicators (generateSignal [bar 2 100, bar 1 101] ''daily'')) = Fin 0 \<and>
   sma20 (indicators (generateSignal [] ''daily'')) = Fin 0"
proof -
  have h: "map close [bar 2 100, bar 1 101] = map close [bar 1 100, bar 2 101]"
    by (simp add: bar_def)
  have t: "\<not> timestamps_increasing [bar 2 100, bar 1 101] \<and>
      timestamps_increasing [bar 1 100, bar 2 101]"
    by (simp add: bar_def)
  note swapped = generateSignal_accepts_any_series[of "[bar 2 100, bar 1 101]"
      "[bar 1 100, bar 2 101]" "''daily''"]
  note empty = generateSignal_accepts_any_series[of "[]" "[]" "''daily''"]
  from swapped h have same: "generateSignal [bar 2 100, bar 1 101] ''daily'' =
      generateSignal [bar 1 100, bar 2 101] ''daily''"
    by blast
  from swapped have short: "rsi (indicators (generateSignal [bar 2 100, bar 1 101] ''daily'')) = Fin 50 \<and>
      momentum (indicators (generateSignal [bar 2 100, bar 1 101] ''daily'')) = Fin 0"
    by simp
  from empty have none: "sma20 (indicators (generateSignal [] ''daily'')) = Fin 0"
    by simp
  show ?thesis
    using h t same short none by blast
qed

text \<open>
  C3 as stated fails: the empty series and a series whose timestamps decrease both go
  through, and what comes back is an ordinary HOLD signal built from the fallback values.
\<close>

theorem malformed_series_not_rejected:
  "generateSignal [] ''daily'' =
     \<lparr>timeframe = ''daily'', signal = HOLD, strength = Fin 40,
      indicators = \<lparr>sma20 = Fin 0, sma50 = Fin 0, rsi = Fin 50, momentum = Fin 0\<rparr>\<rparr> \<and>
   \<not> timestamps_increasing [bar 2 100, bar 1 101] \<and>
   generateSignal [bar 2 100, bar 1 101] ''daily'' =
     \<lparr>timeframe = ''daily'', signal = HOLD, strength = Fin 40,
      indicators = \<lparr>sma20 = Fin 101, sma50 = Fin 101, rsi = Fin 50, momentum = Fin 0\<rparr>\<rparr>"
  by (simp add: generateSignal_def calculateSMA_def calculateRSI_def calculateMomentum_def
      js_index_def js_gt_def round2_def bar_def Let_def)

section \<open>Signal combiner\<close>

text \<open>
  C6. The combined direction is the shared one when the inputs agree; BUY when daily is BUY
  and intraday is not SELL; SELL when daily is SELL and intraday is not BUY; HOLD for the
  two opposed pairs and whenever daily is HOLD.
\<close>

theorem combineSignals_direction:
  "(signal d = signal i \<longrightarrow> signal (combineSignals d i) = signal d) \<and>
   (signal d = BUY \<and> signal i \<noteq> SELL \<longrightarrow> signal (combineSignals d i) = BUY) \<and>
   (signal d = SELL \<and> signal i \<noteq> BUY \<longrightarrow> signal (combineSignals d i) = SELL) \<and>
   (signal d = BUY \<and> signal i = SELL \<longrightarrow> signal (combineSignals d i) = HOLD) \<and>
   (signal d = SELL \<and> signal i = BUY \<longrightarrow> signal (combineSignals d i) = HOLD) \<and>
   (signal d = HOLD \<longrightarrow> signal (combineSignals d i) = HOLD)"
  by (cases "signal d"; cases "signal i") (simp_all add: combineSignals_def)

theorem combineSignals_direction_witness:
  "signal (combineSignals (sample_signal SELL 80) (sample_signal SELL 60)) = SELL \<and>
   signal (combineSignals (sample_signal BUY 80) (sample_signal HOLD 40)) = BUY \<and>
   signal (combineSignals (sample_signal SELL 80) (sample_signal HOLD 40)) = SELL \<and>
   signal (combineSignals (sample_signal BUY 80) (sample_signal SELL 60)) = HOLD \<and>
   signal (combineSignals (sample_signal SELL 80) (sample_signal BUY 60)) = HOLD \<and>
   signal (combineSignals (sample_signal HOLD 40) (sample_signal BUY 80)) = HOLD"
  using combineSignals_direction[of "sample_signal SELL 80" "sample_signal SELL 60"]
    combineSignals_direction[of "sample_signal BUY 80" "sample_signal HOLD 40"]
    combineSignals_direction[of "sample_signal SELL 80" "sample_signal HOLD 40"]
    combineSignals_direction[of "sample_signal BUY 80" "sample_signal SELL 60"]
    combineSignals_direction[of "sample_signal SELL 80" "sample_signal BUY 60"]
    combineSignals_direction[of "sample_signal HOLD 40" "sample_signal BUY 80"]
  by (simp add: sample_signal_def)

text \<open>
  C7. The combined strength is \<open>Math.round\<close> of the weighted sum of the two strengths
  with the weights 0.6 and 0.4, computed as the program computes it: each product and
  the sum rounded to binary64. For whole-number strengths from 0 to 100, which are the
  strengths the generator and the combiner produce, this is the nearest integer of the
  exact sum 0.6 * daily + 0.4 * intraday, ties going up. The timeframe is the label
  \<open>combined\<close> and the indicators are those of the daily signal.
\<close>

theorem combineSignals_strength:
  "strength (combineSignals d i) =
     js_round (to_binary64 (js_add (to_binary64 (js_mul dailyWeight (strength d)))
                                   (to_binary64 (js_mul intradayWeight (strength i))))) \<and>
   timeframe (combineSignals d i) = ''combined'' \<and>
   indicators (combineSignals d i) = indicators d \<and>
   (strength d = Fin (of_int a) \<and> strength i = Fin (of_int b) \<and>
    0 \<le> a \<and> a \<le> 100 \<and> 0 \<le> b \<and> b \<le> 100 \<longrightarrow>
      strength (combineSignals d i) =
        Fin (of_int (round (6 / 10 * of_int a + 4 / 10 * of_int b :: real))))"
proof -
  have shape: "strength (combineSignals d i) =
     js_round (to_binary64 (js_add (to_binary64 (js_mul dailyWeight (strength d)))
                                   (to_binary64 (js_mul intradayWeight (strength i)))))"
    by (simp add: combineSignals_def js_mul_commute)
  have fields: "timeframe (combineSignals d i) = ''combined'' \<and>
      indicators (combineSignals d i) = indicators d"
    by (simp add: combineSignals_def)
  have whole: "strength (combineSignals d i) =
        Fin (of_int (round (6 / 10 * of_int a + 4 / 10 * of_int b :: real)))"
    if "strength d = Fin (of_int a)" "strength i = Fin (of_int b)"
      "0 \<le> a" "a \<le> 100" "0 \<le> b" "b \<le> 100"
    using combined_strength_integers[OF that] by (simp only: round_weighted_int)
  show ?thesis
    using shape fields whole by blast
qed

theorem combineSignals_strength_witness:
  "strength (sample_signal BUY 80) = Fin (of_int 80) \<and>
   strength (sample_signal SELL 60) = Fin (of_int 60) \<and>
   strength (combineSignals (sample_signal BUY 80) (sample_signal SELL 60)) = Fin 72 \<and>
   indicators (combineSignals (sample_signal BUY 80) (sample_signal SELL 60)) = no_indicators"
proof -
  note inst = combineSignals_strength[of "sample_signal BUY 80" "sample_signal SELL 60" 80 60]
  have given: "strength (sample_signal BUY 80) = Fin (of_int 80) \<and>
      strength (sample_signal SELL 60) = Fin (of_int 60)"
    by (simp add: sample_signal_def)
  from inst have "indicators (combineSignals (sample_signal BUY 80) (sample_signal SELL 60))
      = indicators (sample_signal BUY 80)"
    by blast
  then have copied: "indicators (combineSignals (sample_signal BUY 80) (sample_signal SELL 60))
      = no_indicators"
    by (simp add: sample_signal_def)
  have bounds: "(0 :: int) \<le> 80 \<and> (80 :: int) \<le> 100 \<and> (0 :: int) \<le> 60 \<and> (60 :: int) \<le> 100"
    by simp
  from inst given bounds have "strength (combineSignals (sample_signal BUY 80)
      (sample_signal SELL 60)) = Fin (of_int (round (6 / 10 * of_int 80 + 4 / 10 * of_int 60 :: real)))"
    by blast
  then have "strength (combineSignals (sample_signal BUY 80) (sample_signal SELL 60)) = Fin 72"
    by simp
  with given copied show ?thesis by blast
qed

section \<open>Recommendation text\<close>

text \<open>
  C2, evaluated where it fails. Daily BUY at 80 and intraday HOLD at 40 combine to BUY at
  64, which is not above 80. The text then starts with \<open>Strong Moderate BUY\<close>: the word
  \<open>Strong\<close> stands outside the choice between \<open>BUY\<close> and \<open>Moderate BUY\<close>, so it is
  printed in both cases and the text does not start with \<open>Moderate BUY\<close>.
\<close>

theorem recommendation_moderate_buy:
  "signal (combineSignals (sample_signal BUY 80) (sample_signal HOLD 40)) = BUY \<and>
   strength (combineSignals (sample_signal BUY 80) (sample_signal HOLD 40)) = Fin 64 \<and>
   recommendation num_str (sample_signal BUY 80) (sample_signal HOLD 40)
       (combineSignals (sample_signal BUY 80) (sample_signal HOLD 40)) =
     ''Strong Moderate BUY signal. Daily trend is BUY with '' @ num_str (Fin 80) @
     ''% confidence. 15-min trend shows HOLD with '' @ num_str (Fin 40) @ ''% confidence.'' \<and>
   \<not> prefix ''Moderate BUY''
       (recommendation num_str (sample_signal BUY 80) (sample_signal HOLD 40)
         (combineSignals (sample_signal BUY 80) (sample_signal HOLD 40)))"
proof -
  have dir: "signal (combineSignals (sample_signal BUY 80) (sample_signal HOLD 40)) = BUY"
    by (simp add: combineSignals_def sample_signal_def)
  have "strength (combineSignals (sample_signal BUY 80) (sample_signal HOLD 40)) =
      Fin (of_int ((6 * 80 + 4 * 40 + 5) div 10))"
    by (rule combined_strength_integers) (simp_all add: sample_signal_def)
  then have str: "strength (combineSignals (sample_signal BUY 80) (sample_signal HOLD 40)) =
      Fin 64"
    by simp
  show ?thesis
    unfolding recommendation_def dir str
    by (simp add: sample_signal_def js_gt_def)
qed

end
